theory Spec2Isabelle
  imports Complex_Main "HOL-Library.Word" "HOL-Library.Sublist" "HOL-Library.AList"
begin

unbundle bit_operations_syntax

section \<open>Python values, exceptions and log records\<close>

text \<open>
  The module \<^verbatim>\<open>minxss_parser.py\<close> is Python 3 (\<^verbatim>\<open>1 / 298\<close> is a float division,
  \<^verbatim>\<open>print\<close> is a function). A \<^verbatim>\<open>bytearray\<close> is a list of bytes; indexing it gives a
  Python \<^verbatim>\<open>int\<close> in \<open>0..255\<close>, modelled by \<open>uint\<close> of the byte.
\<close>

type_synonym byte = "8 word"

text \<open>The exceptions the statements of the module can raise.\<close>

datatype exn = IndexError | ValueError | TypeError | ZeroDivisionError | OverflowError

text \<open>
  The values the decoders return: \<^verbatim>\<open>None\<close>, a Python \<^verbatim>\<open>int\<close>, a Python \<^verbatim>\<open>float\<close>
  (read as a real number), a \<^verbatim>\<open>bytearray\<close>, and the four numpy scalar types that
  \<^verbatim>\<open>decodeBytes\<close> builds. A numpy scalar is its bit pattern; \<open>uint\<close> reads an unsigned
  one and \<open>sint\<close> a signed one.
\<close>

datatype pyval =
    PyNone
  | PyInt int
  | PyFloat real
  | PyBytes "byte list"
  | NpUInt16 "16 word"
  | NpInt16 "16 word"
  | NpUInt32 "32 word"
  | NpInt32 "32 word"

text \<open>A call either returns a value or raises.\<close>

datatype 'a outcome = Return 'a | Raise exn

section \<open>Locating the sync bytes\<close>

text \<open>
  \<^verbatim>\<open>bytearray.find(sub)\<close>: the lowest index at which \<^verbatim>\<open>sub\<close> starts, \<open>-1\<close> when it
  starts nowhere. The third argument is the index of the head of the remaining list.
\<close>

fun bytearray_find :: "byte list \<Rightarrow> byte list \<Rightarrow> nat \<Rightarrow> int" where
  "bytearray_find [] sub i = (if sub = [] then int i else - 1)"
| "bytearray_find (x # xs) sub i =
     (if prefix sub (x # xs) then int i else bytearray_find xs sub (Suc i))"

definition findSyncStartIndex :: "byte list \<Rightarrow> int" where
  "findSyncStartIndex minxssSerialData =
     (let syncBytes = [0x08, 0x19];
          packetStartIndex = bytearray_find minxssSerialData syncBytes 0
      in packetStartIndex)"

definition findSyncStopIndex :: "byte list \<Rightarrow> int" where
  "findSyncStopIndex minxssSerialData =
     (let syncBytes = [0xa5, 0xa5];
          packetStopIndex = bytearray_find minxssSerialData syncBytes 0
      in packetStopIndex)"

text \<open>The two-byte marker \<open>a b\<close> starts at index \<open>k\<close> of the buffer.\<close>

definition marker_at :: "byte \<Rightarrow> byte \<Rightarrow> byte list \<Rightarrow> nat \<Rightarrow> bool" where
  "marker_at a b buf k = (Suc k < length buf \<and> buf ! k = a \<and> buf ! Suc k = b)"

section \<open>Effects: exceptions and the debug log\<close>

text \<open>
  \<^verbatim>\<open>self.log\<close> is the logger handed to the constructor. A call of \<^verbatim>\<open>log.error\<close>,
  \<^verbatim>\<open>log.info\<close> or \<^verbatim>\<open>log.debug\<close> appends one record; the message is a string or, at
  the end of \<^verbatim>\<open>parsePacket\<close>, the telemetry dictionary.
\<close>

datatype level = Debug | Info | Error

type_synonym dict = "(string \<times> pyval) list"

datatype logmsg = Text string | Dict dict

type_synonym logrec = "level \<times> logmsg"

text \<open>
  A method call yields its outcome and the log records it wrote, in order. An
  exception ends the call; nothing in the module catches one.
\<close>

type_synonym 'a act = "'a outcome \<times> logrec list"

definition py_return :: "'a \<Rightarrow> 'a act" where
  "py_return v = (Return v, [])"

definition py_raise :: "exn \<Rightarrow> 'a act" where
  "py_raise e = (Raise e, [])"

definition py_log :: "level \<Rightarrow> logmsg \<Rightarrow> unit act" where
  "py_log l m = (Return (), [(l, m)])"

fun py_bind :: "'a act \<Rightarrow> ('a \<Rightarrow> 'b act) \<Rightarrow> 'b act" where
  "py_bind (Return v, l) f = (case f v of (r, l') \<Rightarrow> (r, l @ l'))"
| "py_bind (Raise e, l) f = (Raise e, l)"

section \<open>Indexing and slicing a bytearray\<close>

text \<open>\<^verbatim>\<open>b[i]\<close> for a literal index \<open>i \<ge> 0\<close>: the byte as an \<^verbatim>\<open>int\<close>, or IndexError.\<close>

definition getitem :: "byte list \<Rightarrow> nat \<Rightarrow> int act" where
  "getitem b i = (if i < length b then py_return (uint (b ! i)) else py_raise IndexError)"

text \<open>
  \<^verbatim>\<open>b[lo:hi]\<close>: a negative bound counts from the end, every bound is clipped to the
  list, and an empty or inverted range is the empty list. A slice never raises.
\<close>

definition py_clip :: "nat \<Rightarrow> int \<Rightarrow> nat" where
  "py_clip n i = (if i < 0 then nat (int n + i) else min n (nat i))"

definition py_slice :: "'a list \<Rightarrow> int \<Rightarrow> int \<Rightarrow> 'a list" where
  "py_slice xs lo hi =
     (let a = py_clip (length xs) lo; b = py_clip (length xs) hi
      in take (b - a) (drop a xs))"

section \<open>The numpy scalar operations of decodeBytes\<close>

text \<open>
  The module takes \<^verbatim>\<open>int8, uint8, int16, uint16, int32, uint32\<close> from numpy and names
  no version of it. numpy has two sets of scalar rules, and \<^verbatim>\<open>decodeBytes\<close> depends on
  which one is in force, so the rules are a parameter of the model: \<open>NumPy1\<close> for the
  releases before 2.0, \<open>NumPy2\<close> for 2.0 and later.
  \<^item> \<^verbatim>\<open>int8(n)\<close> and \<^verbatim>\<open>uint8(n)\<close> of a Python \<^verbatim>\<open>int\<close>: under \<open>NumPy1\<close> the low 8 bits
    of \<open>n\<close> are kept; under \<open>NumPy2\<close> an \<open>n\<close> outside the range of the type raises
    OverflowError.
  \<^item> A numpy scalar shifted left by a Python \<^verbatim>\<open>int\<close>: under \<open>NumPy1\<close> the scalar is
    promoted with the default integer type and the result is an \<^verbatim>\<open>int64\<close>; under
    \<open>NumPy2\<close> the result keeps the 8-bit type of the scalar, so the bits shifted past
    bit 7 are lost and a shift by 8 or more gives 0.
  \<^item> \<^verbatim>\<open>s | u\<close> with a \<^verbatim>\<open>uint8\<close> scalar \<open>u\<close> has the promoted type of both, under either
    set of rules: \<^verbatim>\<open>int64\<close> for an \<^verbatim>\<open>int64\<close>, \<^verbatim>\<open>int16\<close> for an \<^verbatim>\<open>int16\<close> or an
    \<^verbatim>\<open>int8\<close>, \<^verbatim>\<open>uint8\<close> for a \<^verbatim>\<open>uint8\<close>.
  \<^item> \<^verbatim>\<open>uint16(s)\<close>, \<^verbatim>\<open>int16(s)\<close>, \<^verbatim>\<open>uint32(s)\<close>, \<^verbatim>\<open>int32(s)\<close> of a numpy scalar \<open>s\<close>
    convert its value, keeping the low 16 or 32 bits.
  \<^verbatim>\<open>b[i] << n\<close> with no numpy cast around \<^verbatim>\<open>b[i]\<close> is a shift of Python \<^verbatim>\<open>int\<close>s.
\<close>

datatype numpy = NumPy1 | NumPy2

text \<open>The numpy scalars that occur between the casts, each with its bit pattern.\<close>

datatype scalar = SInt8 "8 word" | SUInt8 "8 word" | SInt16 "16 word" | SInt64 "64 word"

definition int8 :: "numpy \<Rightarrow> int \<Rightarrow> 8 word act" where
  "int8 np n =
     (if np = NumPy2 \<and> (n < - 128 \<or> 127 < n) then py_raise OverflowError
      else py_return (word_of_int n))"

definition uint8 :: "numpy \<Rightarrow> int \<Rightarrow> 8 word act" where
  "uint8 np n =
     (if np = NumPy2 \<and> (n < 0 \<or> 255 < n) then py_raise OverflowError
      else py_return (word_of_int n))"

definition lshift_int8 :: "numpy \<Rightarrow> 8 word \<Rightarrow> nat \<Rightarrow> scalar" where
  "lshift_int8 np x n =
     (case np of NumPy1 \<Rightarrow> SInt64 (push_bit n (scast x)) | NumPy2 \<Rightarrow> SInt8 (push_bit n x))"

definition lshift_uint8 :: "numpy \<Rightarrow> 8 word \<Rightarrow> nat \<Rightarrow> scalar" where
  "lshift_uint8 np x n =
     (case np of NumPy1 \<Rightarrow> SInt64 (push_bit n (ucast x)) | NumPy2 \<Rightarrow> SUInt8 (push_bit n x))"

fun or_uint8 :: "scalar \<Rightarrow> 8 word \<Rightarrow> scalar" where
  "or_uint8 (SInt64 x) y = SInt64 (x OR ucast y)"
| "or_uint8 (SInt16 x) y = SInt16 (x OR ucast y)"
| "or_uint8 (SInt8 x) y = SInt16 (scast x OR ucast y)"
| "or_uint8 (SUInt8 x) y = SUInt8 (x OR y)"

fun uint16 :: "scalar \<Rightarrow> 16 word" where
  "uint16 (SInt64 x) = ucast x"
| "uint16 (SInt16 x) = x"
| "uint16 (SInt8 x) = scast x"
| "uint16 (SUInt8 x) = ucast x"

fun int16 :: "scalar \<Rightarrow> 16 word" where
  "int16 (SInt64 x) = ucast x"
| "int16 (SInt16 x) = x"
| "int16 (SInt8 x) = scast x"
| "int16 (SUInt8 x) = ucast x"

fun uint32 :: "scalar \<Rightarrow> 32 word" where
  "uint32 (SInt64 x) = ucast x"
| "uint32 (SInt16 x) = scast x"
| "uint32 (SInt8 x) = scast x"
| "uint32 (SUInt8 x) = ucast x"

fun int32 :: "scalar \<Rightarrow> 32 word" where
  "int32 (SInt64 x) = ucast x"
| "int32 (SInt16 x) = scast x"
| "int32 (SInt8 x) = scast x"
| "int32 (SUInt8 x) = ucast x"

text \<open>\<^verbatim>\<open>b[i]\<close> under a length test that makes the index valid.\<close>

definition item :: "byte list \<Rightarrow> nat \<Rightarrow> int" where
  "item b i = uint (b ! i)"

section \<open>decodeBytes\<close>

text \<open>
  \<^verbatim>\<open>returnUnsignedInt\<close> is tested for truth only. The casts of an expression run
  from left to right, and the first one that raises ends the call. In the four-byte
  branches the shifts of bytes 2, 1 and 0 are written inside the \<^verbatim>\<open>uint8(...)\<close> call,
  the shift of byte 3 outside it; the model keeps both as written.
\<close>

definition decodeBytes :: "numpy \<Rightarrow> byte list \<Rightarrow> bool \<Rightarrow> pyval act" where
  "decodeBytes np bytearrayTemp returnUnsignedInt =
     (if length bytearrayTemp = 1 then
        py_return (PyBytes bytearrayTemp)
      else if length bytearrayTemp = 2 then
        (if returnUnsignedInt then
           py_bind (int8 np (item bytearrayTemp 1)) (\<lambda>c1.
           py_bind (uint8 np (item bytearrayTemp 0)) (\<lambda>c0.
           py_return (NpUInt16 (uint16 (or_uint8 (lshift_int8 np c1 8) c0)))))
         else
           py_bind (uint8 np (item bytearrayTemp 1)) (\<lambda>c1.
           py_bind (uint8 np (item bytearrayTemp 0)) (\<lambda>c0.
           py_return (NpInt16 (int16 (or_uint8 (lshift_uint8 np c1 8) c0))))))
      else if length bytearrayTemp = 4 then
        (if returnUnsignedInt then
           py_bind (uint8 np (item bytearrayTemp 3)) (\<lambda>c3.
           py_bind (uint8 np (push_bit 16 (item bytearrayTemp 2))) (\<lambda>c2.
           py_bind (uint8 np (push_bit 8 (item bytearrayTemp 1))) (\<lambda>c1.
           py_bind (uint8 np (push_bit 0 (item bytearrayTemp 0))) (\<lambda>c0.
           py_return (NpUInt32 (uint32
             (or_uint8 (or_uint8 (or_uint8 (lshift_uint8 np c3 24) c2) c1) c0)))))))
         else
           py_bind (uint8 np (item bytearrayTemp 3)) (\<lambda>c3.
           py_bind (uint8 np (push_bit 16 (item bytearrayTemp 2))) (\<lambda>c2.
           py_bind (uint8 np (push_bit 8 (item bytearrayTemp 1))) (\<lambda>c1.
           py_bind (uint8 np (push_bit 0 (item bytearrayTemp 0))) (\<lambda>c0.
           py_return (NpInt32 (int32
             (or_uint8 (or_uint8 (or_uint8 (lshift_uint8 np c3 24) c2) c1) c0))))))))
      else
        py_bind (py_log Debug (Text ''More bytes than expected'')) (\<lambda>_. py_return PyNone))"

section \<open>TempCalc\<close>

text \<open>
  Python floats are read as real numbers. \<^verbatim>\<open>x / y\<close> raises ZeroDivisionError when
  \<open>y\<close> is zero and \<^verbatim>\<open>math.log(x)\<close> raises ValueError (math domain error) when
  \<open>x \<le> 0\<close>. Which statement raises depends on the signs of \<open>3.3 - V\<close> and of \<open>R\<close>
  only, which are the same for the floats and for the reals they stand for.
\<close>

definition py_div :: "real \<Rightarrow> real \<Rightarrow> real act" where
  "py_div x y = (if y = 0 then py_raise ZeroDivisionError else py_return (x / y))"

definition math_log :: "real \<Rightarrow> real act" where
  "math_log x = (if x \<le> 0 then py_raise ValueError else py_return (ln x))"

definition TempCalc :: "byte list \<Rightarrow> pyval act" where
  "TempCalc bytearrayTemp =
     py_bind (py_div 1 298) (\<lambda>Tinv.
     let B = 3430 in
     py_bind (getitem bytearrayTemp 0) (\<lambda>v0.
     py_bind (getitem bytearrayTemp 1) (\<lambda>v1.
     let Voltage_thermistor = v0 + v1 in
     py_bind (py_div (real_of_int Voltage_thermistor) (3.3 - real_of_int Voltage_thermistor)) (\<lambda>q.
     let Resistance_thermistor = q * 23 * 1000 in
     py_bind (py_div Resistance_thermistor 10000) (\<lambda>R.
     py_bind (math_log R) (\<lambda>lnR.
     py_bind (py_div lnR B) (\<lambda>lnR_B.
     py_bind (py_div 1 (Tinv + lnR_B)) (\<lambda>Temperature.
     py_return (PyFloat (Temperature - 273))))))))))"

section \<open>The byte-to-telemetry conversion functions\<close>

text \<open>
  \<^verbatim>\<open>int(x, base)\<close> with an \<^verbatim>\<open>x\<close> that is not a string raises TypeError (int() can't
  convert non-string with explicit base). \<^verbatim>\<open>BatteryVoltage\<close> passes the \<^verbatim>\<open>int\<close>
  \<^verbatim>\<open>bytearrayTemp[0]+bytearrayTemp[1]\<close>; the \<^verbatim>\<open>bin(...)[2:].zfill(...)\<close> around the
  call would work on its result, which is thrown away.
\<close>

definition int_with_base :: "int \<Rightarrow> int \<Rightarrow> int act" where
  "int_with_base x base = py_raise TypeError"

definition BatteryVoltage :: "numpy \<Rightarrow> byte list \<Rightarrow> pyval act" where
  "BatteryVoltage np bytearrayTemp =
     py_bind (getitem bytearrayTemp 0) (\<lambda>v0.
     py_bind (getitem bytearrayTemp 1) (\<lambda>v1.
     let temp_hexdata = v0 + v1; scale = 16; num_of_bits = 16 :: int in
     py_bind (int_with_base temp_hexdata scale) (\<lambda>_.
     decodeBytes np bytearrayTemp False)))"

definition decodeTimeStamp :: "byte list \<Rightarrow> pyval act" where
  "decodeTimeStamp bytearrayTemp = py_return PyNone"

definition decodeCommandReceivedCount :: "byte list \<Rightarrow> pyval act" where
  "decodeCommandReceivedCount bytearrayTemp = py_return PyNone"

definition decodeLastCommandReceived :: "byte list \<Rightarrow> pyval act" where
  "decodeLastCommandReceived bytearrayTemp = py_return PyNone"

definition decodeTemperature :: "byte list \<Rightarrow> pyval act" where
  "decodeTemperature bytearrayTemp = TempCalc bytearrayTemp"

definition decodeCDHPrimaryData :: "byte list \<Rightarrow> pyval act" where
  "decodeCDHPrimaryData bytearrayTemp = py_return PyNone"

definition decodeRejectedCIPPackets :: "byte list \<Rightarrow> pyval act" where
  "decodeRejectedCIPPackets bytearrayTemp = py_return PyNone"

definition decodeLastDownlinkedHKSector :: "byte list \<Rightarrow> pyval act" where
  "decodeLastDownlinkedHKSector bytearrayTemp = py_return PyNone"

definition LastdownlinkedScienceSector :: "byte list \<Rightarrow> pyval act" where
  "LastdownlinkedScienceSector bytearrayTemp = py_return PyNone"

definition LastdownlinkedADCSSector :: "byte list \<Rightarrow> pyval act" where
  "LastdownlinkedADCSSector bytearrayTemp = py_return PyNone"

definition decodeBatteryCurrent :: "byte list \<Rightarrow> pyval act" where
  "decodeBatteryCurrent bytearrayTemp = py_return PyNone"

definition decodeBatterySOC :: "byte list \<Rightarrow> pyval act" where
  "decodeBatterySOC bytearrayTemp = py_return PyNone"

definition decodeBatteryTemperature :: "byte list \<Rightarrow> pyval act" where
  "decodeBatteryTemperature bytearrayTemp = TempCalc bytearrayTemp"

definition decodeSolarPanelVoltage :: "byte list \<Rightarrow> pyval act" where
  "decodeSolarPanelVoltage bytearrayTemp = py_return PyNone"

definition decodeSolarPanelCurrent :: "byte list \<Rightarrow> pyval act" where
  "decodeSolarPanelCurrent bytearrayTemp = py_return PyNone"

definition decodeInterfaceBoardTemperature :: "byte list \<Rightarrow> pyval act" where
  "decodeInterfaceBoardTemperature bytearrayTemp = TempCalc bytearrayTemp"

definition decodeEPSBoardTemperature :: "byte list \<Rightarrow> pyval act" where
  "decodeEPSBoardTemperature bytearrayTemp = TempCalc bytearrayTemp"

definition decodeCIPVoltage :: "byte list \<Rightarrow> pyval act" where
  "decodeCIPVoltage bytearrayTemp = py_return (PyInt 1)"

definition decodeCIPCurrent :: "byte list \<Rightarrow> pyval act" where
  "decodeCIPCurrent bytearrayTemp = py_return (PyInt 1)"

definition decodeADCSVoltage :: "byte list \<Rightarrow> pyval act" where
  "decodeADCSVoltage bytearrayTemp = py_return (PyInt 1)"

definition decodeADCSCurrent :: "byte list \<Rightarrow> pyval act" where
  "decodeADCSCurrent bytearrayTemp = py_return (PyInt 1)"

definition decodeSBandVoltage :: "byte list \<Rightarrow> pyval act" where
  "decodeSBandVoltage bytearrayTemp = py_return (PyInt 1)"

definition decodeSBandCurrent :: "byte list \<Rightarrow> pyval act" where
  "decodeSBandCurrent bytearrayTemp = py_return (PyInt 1)"

definition decodeUHFVoltage :: "byte list \<Rightarrow> pyval act" where
  "decodeUHFVoltage bytearrayTemp = py_return (PyInt 1)"

definition decodeUHFCurrent :: "byte list \<Rightarrow> pyval act" where
  "decodeUHFCurrent bytearrayTemp = py_return (PyInt 1)"

definition decodeCDHVoltage :: "byte list \<Rightarrow> pyval act" where
  "decodeCDHVoltage bytearrayTemp = py_return (PyInt 1)"

definition decodeCDHCurrent :: "byte list \<Rightarrow> pyval act" where
  "decodeCDHCurrent bytearrayTemp = py_return (PyInt 1)"

definition decodeGPS3Voltage :: "byte list \<Rightarrow> pyval act" where
  "decodeGPS3Voltage bytearrayTemp = py_return (PyInt 1)"

definition decodeGPS3Current :: "byte list \<Rightarrow> pyval act" where
  "decodeGPS3Current bytearrayTemp = py_return (PyInt 1)"

definition decodeGPS12Voltage :: "byte list \<Rightarrow> pyval act" where
  "decodeGPS12Voltage bytearrayTemp = py_return (PyInt 1)"

definition decodeGPS12Current :: "byte list \<Rightarrow> pyval act" where
  "decodeGPS12Current bytearrayTemp = py_return (PyInt 1)"

definition decodeBatteryHeaterCurrent :: "byte list \<Rightarrow> pyval act" where
  "decodeBatteryHeaterCurrent bytearrayTemp = py_return (PyInt 1)"

definition decodeGeneralInfo :: "byte list \<Rightarrow> pyval act" where
  "decodeGeneralInfo bytearrayTemp = py_return (PyInt 1)"

definition decodeCIPTemperature :: "byte list \<Rightarrow> pyval act" where
  "decodeCIPTemperature bytearrayTemp = py_return (PyInt 1)"

definition decodeSystemChecksTemp :: "byte list \<Rightarrow> pyval act" where
  "decodeSystemChecksTemp bytearrayTemp = py_return (PyInt 1)"

definition decodeSystemCheckCurrent :: "byte list \<Rightarrow> pyval act" where
  "decodeSystemCheckCurrent bytearrayTemp = py_return (PyInt 1)"

definition decodeShellTemp :: "byte list \<Rightarrow> pyval act" where
  "decodeShellTemp bytearrayTemp = py_return (PyInt 1)"

definition decodeCheckSumCounter :: "byte list \<Rightarrow> pyval act" where
  "decodeCheckSumCounter bytearrayTemp = py_return (PyInt 1)"

definition decodeConfigurationStatus :: "byte list \<Rightarrow> pyval act" where
  "decodeConfigurationStatus bytearrayTemp = py_return (PyInt 1)"

definition decodeSBandByte :: "byte list \<Rightarrow> pyval act" where
  "decodeSBandByte bytearrayTemp = py_return (PyInt 1)"

definition decodeCommandStatus :: "byte list \<Rightarrow> pyval act" where
  "decodeCommandStatus bytearrayTemp = py_return (PyInt 1)"

definition decodeCommandRejectCount :: "byte list \<Rightarrow> pyval act" where
  "decodeCommandRejectCount bytearrayTemp = py_return (PyInt 1)"

definition decodeCommandAcceptCount :: "byte list \<Rightarrow> pyval act" where
  "decodeCommandAcceptCount bytearrayTemp = py_return (PyInt 1)"

definition decodeTimeValid :: "byte list \<Rightarrow> pyval act" where
  "decodeTimeValid bytearrayTemp = py_return (PyInt 1)"

definition decodeTimeNow :: "byte list \<Rightarrow> pyval act" where
  "decodeTimeNow bytearrayTemp = py_return (PyInt 1)"

definition decodeAttitudeValid :: "byte list \<Rightarrow> pyval act" where
  "decodeAttitudeValid bytearrayTemp = py_return (PyInt 1)"

definition decodeRefsValid :: "byte list \<Rightarrow> pyval act" where
  "decodeRefsValid bytearrayTemp = py_return (PyInt 1)"

definition decodeADCSMode :: "byte list \<Rightarrow> pyval act" where
  "decodeADCSMode bytearrayTemp = py_return (PyInt 1)"

definition decodeRecommendSunPoint :: "byte list \<Rightarrow> pyval act" where
  "decodeRecommendSunPoint bytearrayTemp = py_return (PyInt 1)"

definition decodeSunPointState :: "byte list \<Rightarrow> pyval act" where
  "decodeSunPointState bytearrayTemp = py_return (PyInt 1)"

definition decodeStarTrackerTemperature :: "byte list \<Rightarrow> pyval act" where
  "decodeStarTrackerTemperature bytearrayTemp = py_return (PyInt 1)"

definition decodeWheelTemperatures :: "byte list \<Rightarrow> pyval act" where
  "decodeWheelTemperatures bytearrayTemp = py_return (PyInt 1)"

definition decodeDigitalBusVoltage :: "byte list \<Rightarrow> pyval act" where
  "decodeDigitalBusVoltage bytearrayTemp = py_return (PyInt 1)"

definition decodeSunVector :: "byte list \<Rightarrow> pyval act" where
  "decodeSunVector bytearrayTemp = py_return (PyInt 1)"

definition decodeWheelEstDrag :: "byte list \<Rightarrow> pyval act" where
  "decodeWheelEstDrag bytearrayTemp = py_return (PyInt 1)"

definition decodeWheelMeasuredSpeed :: "byte list \<Rightarrow> pyval act" where
  "decodeWheelMeasuredSpeed bytearrayTemp = py_return (PyInt 1)"

definition decodeBodyFrameRate :: "byte list \<Rightarrow> pyval act" where
  "decodeBodyFrameRate bytearrayTemp = py_return (PyInt 1)"

section \<open>parsePacket\<close>

text \<open>
  \<^verbatim>\<open>selectedTelemetryDictionary[key] = call\<close>: the call runs first; when it returns,
  the key is set (a new key goes to the end of the dictionary).
\<close>

definition store :: "string \<Rightarrow> pyval act \<Rightarrow> dict \<Rightarrow> dict act" where
  "store key call d = py_bind call (\<lambda>v. py_return (AList.update key v d))"

text \<open>Statements run in order; the first exception ends the run.\<close>

fun run :: "(dict \<Rightarrow> dict act) list \<Rightarrow> dict \<Rightarrow> dict act" where
  "run [] d = py_return d"
| "run (s # ss) d = py_bind (s d) (run ss)"

text \<open>\<^verbatim>\<open>parsePacket\<close> returns the \<^verbatim>\<open>int\<close> \<open>-1\<close> or the dictionary.\<close>

datatype retval = RInt int | RDict dict

text \<open>
  The body of \<^verbatim>\<open>parsePacket\<close> from the empty dictionary on (source lines 31 to 156),
  as a function of the reframed packet. The numpy rules reach \<^verbatim>\<open>decodeBytes\<close> through
  \<^verbatim>\<open>BatteryVoltage\<close>.
\<close>

definition decodeTelemetry :: "numpy \<Rightarrow> byte list \<Rightarrow> retval act" where
  "decodeTelemetry np inspirePacket =
     py_bind (run [
        store ''Time Stamp'' (decodeTimeStamp (py_slice inspirePacket 0 5)),
        store ''Commands Received'' (decodeCommandReceivedCount (py_slice inspirePacket 5 (5 + 4))),
        store ''Last Command Received'' (decodeLastCommandReceived (py_slice inspirePacket 9 (9 + 2))),
        store ''Temperature'' (decodeTemperature (py_slice inspirePacket 11 13)),
        store ''C&DH Primary Data'' (decodeCDHPrimaryData (py_slice inspirePacket 13 (13 + 1))),
        store ''Rejected CIP Packets'' (decodeRejectedCIPPackets (py_slice inspirePacket 14 (14 + 4))),
        store ''Last Downlinked HK Sector'' (decodeLastDownlinkedHKSector (py_slice inspirePacket 18 (18 + 4))),
        store ''Last downlinked Science Sector'' (LastdownlinkedScienceSector (py_slice inspirePacket 22 (22 + 4))),
        store ''Last downlinked ADCS Sector'' (LastdownlinkedADCSSector (py_slice inspirePacket 26 (26 + 4))),
        store ''Battery Voltage'' (BatteryVoltage np (py_slice inspirePacket 29 31)),
        store ''Battery Current'' (decodeBatteryCurrent (py_slice inspirePacket 31 33)),
        store ''Battery SOC'' (decodeBatterySOC (py_slice inspirePacket 33 35)),
        store ''Battery Temperature'' (decodeBatteryTemperature (py_slice inspirePacket 35 43)),
        store ''Solar Panel Voltage'' (decodeSolarPanelVoltage (py_slice inspirePacket 43 49)),
        store ''Solar Panel Current'' (decodeSolarPanelCurrent (py_slice inspirePacket 49 54)),
        store ''Interface Board Temperature'' (decodeInterfaceBoardTemperature (py_slice inspirePacket 54 56)),
        store ''EPS Board Temperature'' (decodeEPSBoardTemperature (py_slice inspirePacket 56 58)),
        store ''CIP Voltage'' (decodeCIPVoltage (py_slice inspirePacket 58 60)),
        store ''CIP Current'' (decodeCIPCurrent (py_slice inspirePacket 60 62)),
        store ''ADCS Voltage'' (decodeADCSVoltage (py_slice inspirePacket 62 64)),
        store ''ADCS Current'' (decodeADCSCurrent (py_slice inspirePacket 64 66)),
        store ''S-Band Voltage'' (decodeSBandVoltage (py_slice inspirePacket 66 (66 + 2))),
        store ''S-Band Current'' (decodeSBandCurrent (py_slice inspirePacket 68 (68 + 2))),
        store ''UHF Voltage'' (decodeUHFVoltage (py_slice inspirePacket 70 (70 + 2))),
        store ''UHF Current'' (decodeUHFCurrent (py_slice inspirePacket 72 (72 + 2))),
        store ''C&DH Voltage'' (decodeCDHVoltage (py_slice inspirePacket 74 (74 + 2))),
        store ''C&DH Current'' (decodeCDHCurrent (py_slice inspirePacket 76 (76 + 2))),
        store ''GPS 3.3 Voltage'' (decodeGPS3Voltage (py_slice inspirePacket 78 (78 + 2))),
        store ''GPS 3.3 Current'' (decodeGPS3Current (py_slice inspirePacket 80 (80 + 2))),
        store ''GPS 12 Voltage'' (decodeGPS12Voltage (py_slice inspirePacket 82 (82 + 6))),
        store ''GPS 12 Current'' (decodeGPS12Current (py_slice inspirePacket 88 (88 + 6))),
        store ''Battery Heater Current'' (decodeBatteryHeaterCurrent (py_slice inspirePacket 94 (94 + 2))),
        store ''General Information'' (decodeGeneralInfo (py_slice inspirePacket 96 (96 + 4))),
        store ''CIP Temperature'' (decodeCIPTemperature (py_slice inspirePacket 100 (100 + 6))),
        store ''System Check Temperature'' (decodeSystemChecksTemp (py_slice inspirePacket 106 (106 + 2))),
        store ''System Check Current Channel'' (decodeSystemCheckCurrent (py_slice inspirePacket 108 (108 + 1))),
        store ''Shell Temperature'' (decodeShellTemp (py_slice inspirePacket 109 (109 + 2))),
        store ''Check Sum Counter'' (decodeCheckSumCounter (py_slice inspirePacket 111 (111 + 2))),
        store ''Configuration Status'' (decodeConfigurationStatus (py_slice inspirePacket 113 (113 + 1))),
        store ''SBandByte'' (decodeSBandByte (py_slice inspirePacket 114 (114 + 1))),
        store ''Command Status'' (decodeCommandStatus (py_slice inspirePacket 115 (115 + 1))),
        store ''Command Reject Count'' (decodeCommandRejectCount (py_slice inspirePacket 116 (116 + 1))),
        store ''Command Accept Count'' (decodeCommandAcceptCount (py_slice inspirePacket 117 (117 + 1))),
        store ''Time Valid'' (decodeTimeValid (py_slice inspirePacket 118 (118 + 1))),
        store ''Time Now'' (decodeTimeNow (py_slice inspirePacket 119 (119 + 4))),
        store ''Refs Valid'' (decodeRefsValid (py_slice inspirePacket 123 (123 + 1))),
        store ''Attitude Valid'' (decodeAttitudeValid (py_slice inspirePacket 123 (123 + 1))),
        store ''ADCS Mode'' (decodeADCSMode (py_slice inspirePacket 124 (124 + 1))),
        store ''Recommend Sun Point'' (decodeRecommendSunPoint (py_slice inspirePacket 125 (125 + 1))),
        store ''Sun Point State'' (decodeSunPointState (py_slice inspirePacket 126 (126 + 1))),
        store ''Star Tracker Temperature'' (decodeStarTrackerTemperature (py_slice inspirePacket 127 (127 + 1))),
        store ''Wheel Temperatures'' (decodeWheelTemperatures (py_slice inspirePacket 128 (128 + 6))),
        store ''Digital Bus Voltage'' (decodeDigitalBusVoltage (py_slice inspirePacket 134 (134 + 2))),
        store ''Sun Vector'' (decodeSunVector (py_slice inspirePacket 136 (136 + 6))),
        store ''Wheel Est Drag'' (decodeWheelEstDrag (py_slice inspirePacket 142 (142 + 6))),
        store ''Wheel Measured Speed'' (decodeWheelMeasuredSpeed (py_slice inspirePacket 148 (148 + 6))),
        store ''Body Frame Rate'' (decodeBodyFrameRate (py_slice inspirePacket 154 (154 + 12)))
       ] [])
       (\<lambda>selectedTelemetryDictionary.
          py_bind (py_log Info (Text ''From MinXSS parser:'')) (\<lambda>_.
          py_bind (py_log Info (Dict selectedTelemetryDictionary)) (\<lambda>_.
          py_return (RDict selectedTelemetryDictionary))))"

text \<open>
  \<^verbatim>\<open>parsePacket\<close> assigns the reframed packet to its own parameter \<^verbatim>\<open>inspirePacket\<close>
  (source line 29), and every field is sliced from that variable.
  \<open>parsePacket_frame\<close> gives the value the variable holds when the call ends, by
  return or by exception, together with the outcome of the call; \<open>parsePacket\<close> is
  the outcome, which is all a caller sees.
\<close>

definition parsePacket_frame :: "numpy \<Rightarrow> byte list \<Rightarrow> byte list \<times> retval act" where
  "parsePacket_frame np inspirePacket0 =
     (let syncOffset = findSyncStartIndex inspirePacket0 in
      if syncOffset = - 1 then
        (inspirePacket0,
         py_bind (py_log Error (Text ''No start sync bytes found in minxss_parser, exiting.''))
           (\<lambda>_. py_return (RInt (- 1))))
      else
        (let inspirePacket = py_slice inspirePacket0 syncOffset (int (length inspirePacket0))
         in (inspirePacket, decodeTelemetry np inspirePacket)))"

definition parsePacket :: "numpy \<Rightarrow> byte list \<Rightarrow> retval act" where
  "parsePacket np inspirePacket = snd (parsePacket_frame np inspirePacket)"

text \<open>The packet of the \<^verbatim>\<open>__main__\<close> block.\<close>

definition exampleData :: "byte list" where
  "exampleData = [
      0xc0, 0x00, 0x9a, 0x92, 0x00, 0xb0, 0xa6, 0x64, 0x60, 0x86,
      0xa2, 0x40, 0x40, 0x40, 0x40, 0xe1, 0x03, 0xf0, 0x08, 0x19,
      0xc1, 0x6f, 0x00, 0xf7, 0xf1, 0x34, 0xd6, 0x45, 0x47, 0x02,
      0x0a, 0x86, 0x4b, 0x00, 0x0c, 0x00, 0x01, 0x00, 0x2e, 0x74,
      0x01, 0x03, 0x30, 0x03, 0x00, 0x03, 0x79, 0x00, 0x00, 0x01,
      0xfa, 0xc7, 0x10, 0x01, 0x03, 0x00, 0x00, 0x01, 0x5a, 0x80,
      0x04, 0x01, 0x00, 0x00, 0x00, 0x92, 0x00, 0x00, 0x00, 0x21,
      0x00, 0x00, 0x00, 0x01, 0x00, 0x00, 0x00, 0x08, 0x00, 0x00,
      0x00, 0x01, 0x00, 0x00, 0x00, 0x80, 0x00, 0x00, 0x5f, 0x00,
      0x47, 0x13, 0x00, 0x00, 0x0a, 0x80, 0xf6, 0x01, 0xe2, 0x03,
      0xd3, 0x0b, 0x06, 0x08, 0x90, 0x18, 0x05, 0x04, 0x00, 0x00,
      0x00, 0x00, 0x00, 0x00, 0x00, 0x00, 0x00, 0x00, 0x01, 0x00,
      0x00, 0x00, 0x8e, 0x01, 0x13, 0x00, 0x6d, 0x00, 0x00, 0x64,
      0x88, 0x01, 0x00, 0x00, 0xac, 0x25, 0x01, 0x00, 0x07, 0x0b,
      0x20, 0x17, 0x40, 0x15, 0x90, 0x15, 0x80, 0x17, 0x40, 0x18,
      0xe0, 0xce, 0x58, 0x61, 0x08, 0x00, 0x78, 0x07, 0x08, 0x00,
      0x80, 0x06, 0x08, 0x00, 0x30, 0x06, 0x18, 0x00, 0x50, 0x20,
      0x30, 0x01, 0x90, 0x0d, 0x18, 0x00, 0x78, 0x13, 0x4d, 0x05,
      0x44, 0x05, 0x51, 0x05, 0x09, 0x08, 0x14, 0x00, 0x9e, 0x05,
      0x6c, 0x00, 0xa0, 0x05, 0xf3, 0x01, 0x5c, 0x00, 0x4f, 0x02,
      0x52, 0x02, 0x53, 0x01, 0x53, 0x01, 0x33, 0x01, 0x00, 0x00,
      0x08, 0x01, 0x00, 0x00, 0x7e, 0x00, 0x00, 0x00, 0xcd, 0x00,
      0x00, 0x00, 0x00, 0x00, 0x00, 0x00, 0x00, 0x00, 0x00, 0x00,
      0x00, 0x00, 0xc7, 0x2f, 0x20, 0x12, 0xd8, 0x00, 0x00, 0x00,
      0x05, 0x07, 0x02, 0x00, 0x00, 0x00, 0x27, 0x06, 0x00, 0x00,
      0x09, 0x06, 0x00, 0x00, 0x00, 0x00, 0x00, 0x00, 0xfc, 0xff,
      0xfd, 0xff, 0x07, 0x00, 0x07, 0x49, 0x00, 0x00, 0xe5, 0xf9,
      0xa5, 0xa5, 0xc0]"

section \<open>The thermistor formula of the specification\<close>

text \<open>
  The temperature the specification gives for a raw voltage \<open>V\<close>, in its own
  words: \<open>1 / (1/298 + ln((V / (3.3 - V)) * 23000 / 10000) / 3430) - 273\<close>. It is
  compared below with what \<^verbatim>\<open>TempCalc\<close> computes.
\<close>

definition thermistor_formula :: "int \<Rightarrow> real" where
  "thermistor_formula V =
     1 / (1 / 298 + ln ((real_of_int V / (3.3 - real_of_int V)) * 23000 / 10000) / 3430) - 273"

section \<open>Properties of the search\<close>

lemma prefix_pair_drop:
  "prefix [a, b] (drop k xs) = marker_at a b xs k"
proof (cases "Suc k < length xs")
  case True
  then have "drop k xs = xs ! k # xs ! Suc k # drop (Suc (Suc k)) xs"
    by (simp add: Cons_nth_drop_Suc)
  with True show ?thesis by (auto simp: marker_at_def)
next
  case False
  then have "length (drop k xs) < 2" by simp
  then have "\<not> prefix [a, b] (drop k xs)"
    using prefix_length_le by fastforce
  with False show ?thesis by (simp add: marker_at_def)
qed

lemma bytearray_find_none:
  "\<forall>k. \<not> prefix sub (drop k xs) \<Longrightarrow> bytearray_find xs sub i = - 1"
proof (induction xs arbitrary: i)
  case Nil
  then show ?case by (auto dest: spec [of _ 0])
next
  case (Cons x xs)
  have "\<not> prefix sub (x # xs)" using Cons.prems [rule_format, of 0] by simp
  moreover have "\<forall>k. \<not> prefix sub (drop k xs)"
    using Cons.prems by (auto dest: spec [of _ "Suc k" for k])
  ultimately show ?case using Cons.IH by simp
qed

lemma bytearray_find_first:
  "prefix sub (drop k xs) \<Longrightarrow> k \<le> length xs \<Longrightarrow> \<forall>j<k. \<not> prefix sub (drop j xs)
     \<Longrightarrow> bytearray_find xs sub i = int (i + k)"
proof (induction xs arbitrary: i k)
  case Nil
  then show ?case by simp
next
  case (Cons x xs)
  show ?case
  proof (cases k)
    case 0
    with Cons.prems show ?thesis by simp
  next
    case (Suc k')
    have no0: "\<not> prefix sub (x # xs)"
      using Cons.prems(3) [rule_format, of 0] Suc by simp
    have "\<forall>j<k'. \<not> prefix sub (drop j xs)"
      using Cons.prems(3) Suc by (auto dest: spec [of _ "Suc j" for j])
    with Cons.prems Suc have "bytearray_find xs sub (Suc i) = int (Suc i + k')"
      by (intro Cons.IH) simp_all
    with no0 Suc show ?thesis by simp
  qed
qed

lemma find_pair_none:
  "\<forall>k. \<not> marker_at a b buf k \<Longrightarrow> bytearray_find buf [a, b] 0 = - 1"
  by (rule bytearray_find_none) (simp add: prefix_pair_drop)

lemma find_pair_first:
  "marker_at a b buf k \<Longrightarrow> \<forall>j<k. \<not> marker_at a b buf j
     \<Longrightarrow> bytearray_find buf [a, b] 0 = int k"
  using bytearray_find_first [of "[a, b]" k buf 0]
  by (simp add: prefix_pair_drop) (simp add: marker_at_def)

lemma find_pair_cases:
  "(bytearray_find buf [a, b] 0 = - 1 \<and> (\<forall>k. \<not> marker_at a b buf k)) \<or>
   (\<exists>k. bytearray_find buf [a, b] 0 = int k \<and> marker_at a b buf k \<and>
        (\<forall>j<k. \<not> marker_at a b buf j))"
proof (cases "\<exists>k. marker_at a b buf k")
  case True
  define k where "k = (LEAST k. marker_at a b buf k)"
  have "marker_at a b buf k" unfolding k_def using True by (auto intro: LeastI)
  moreover have "\<forall>j<k. \<not> marker_at a b buf j"
    unfolding k_def by (auto dest: not_less_Least)
  ultimately show ?thesis using find_pair_first by blast
next
  case False
  then show ?thesis using find_pair_none by blast
qed

section \<open>Properties of the effects, of TempCalc and of parsePacket\<close>

lemma py_bind_return [simp]: "py_bind (py_return v) f = f v"
  by (simp add: py_return_def split: prod.splits)

lemma py_bind_raise [simp]: "py_bind (py_raise e) f = py_raise e"
  by (simp add: py_raise_def)

lemma py_slice_nonneg:
  "0 \<le> lo \<Longrightarrow> 0 \<le> hi \<Longrightarrow> py_slice xs lo hi = take (nat hi - nat lo) (drop (nat lo) xs)"
  by (auto simp: py_slice_def py_clip_def Let_def min_def)

lemma take2_drop:
  "Suc (Suc k) \<le> length xs \<Longrightarrow> take 2 (drop k xs) = [xs ! k, xs ! Suc k]"
  by (simp add: numeral_2_eq_2 take_Suc_conv_app_nth)

lemma getitem_Cons0 [simp]: "getitem (x # xs) 0 = py_return (uint x)"
  by (simp add: getitem_def)

lemma getitem_Cons1 [simp]: "getitem (x # y # xs) (Suc 0) = py_return (uint y)"
  by (simp add: getitem_def)

lemma TempCalc_short: "length bs < 2 \<Longrightarrow> TempCalc bs = py_raise IndexError"
  by (cases bs; cases "tl bs") (auto simp: TempCalc_def py_div_def getitem_def)

lemma BatteryVoltage_short: "length bs < 2 \<Longrightarrow> BatteryVoltage np bs = py_raise IndexError"
  by (cases bs; cases "tl bs") (auto simp: BatteryVoltage_def getitem_def)

lemma BatteryVoltage_long: "2 \<le> length bs \<Longrightarrow> BatteryVoltage np bs = py_raise TypeError"
  by (cases bs; cases "tl bs") (auto simp: BatteryVoltage_def int_with_base_def Let_def)

lemma getitem_Cons_one: "getitem (x # y # xs) 1 = py_return (uint y)"
  by (simp add: getitem_def)

lemma py_div_nz: "y \<noteq> 0 \<Longrightarrow> py_bind (py_div x y) f = f (x / y)"
  by (simp add: py_div_def)

lemma math_log_nonpos: "x \<le> 0 \<Longrightarrow> py_bind (math_log x) f = py_raise ValueError"
  by (simp add: math_log_def)

lemma math_log_pos: "\<not> x \<le> 0 \<Longrightarrow> py_bind (math_log x) f = f (ln x)"
  by (simp add: math_log_def)

lemma denom_nz: "3.3 - real_of_int V \<noteq> 0"
proof
  assume "3.3 - real_of_int V = 0"
  then have "real_of_int (10 * V) = real_of_int 33" by simp
  then have "10 * V = 33" by (simp only: of_int_eq_iff)
  then show False by presburger
qed

lemmas TempCalc_steps =
  TempCalc_def Let_def getitem_Cons0 getitem_Cons_one py_bind_return
  py_div_nz [of "298::real"] py_div_nz [of "10000::real"] py_div_nz [of "3430::real"]
  py_div_nz [OF denom_nz]

lemma consts_nz: "(298::real) \<noteq> 0" "(10000::real) \<noteq> 0" "(3430::real) \<noteq> 0"
  by simp_all

lemma resistance_nonpos:
  assumes "V = 0 \<or> 4 \<le> V"
  shows "real_of_int V / (3.3 - real_of_int V) * 23 * 1000 / 10000 \<le> 0"
proof -
  define q where "q = real_of_int V / (3.3 - real_of_int V)"
  have "q \<le> 0"
    using assms
  proof
    assume "V = 0" then show ?thesis by (simp add: q_def)
  next
    assume "4 \<le> V"
    then have "3.3 - real_of_int V < 0" and "0 \<le> real_of_int V" by simp_all
    then show ?thesis unfolding q_def by (simp only: divide_le_0_iff) simp
  qed
  then have "q * 23 * 1000 / 10000 \<le> 0" by simp
  then show ?thesis by (simp only: q_def)
qed

lemma resistance_ge_one:
  assumes "1 \<le> V" "V \<le> 3"
  shows "1 \<le> real_of_int V / (3.3 - real_of_int V) * 23 * 1000 / 10000"
proof -
  from assms consider "V = 1" | "V = 2" | "V = 3" by linarith
  then show ?thesis by cases simp_all
qed

lemma TempCalc_domain:
  assumes "uint b0 + uint b1 = 0 \<or> 4 \<le> uint b0 + uint b1"
  shows "TempCalc (b0 # b1 # rest) = py_raise ValueError"
proof -
  have R: "real_of_int (uint b0 + uint b1) / (3.3 - real_of_int (uint b0 + uint b1))
             * 23 * 1000 / 10000 \<le> 0"
    using assms by (rule resistance_nonpos)
  show ?thesis
    by (simp only: TempCalc_steps consts_nz math_log_nonpos [OF R] simp_thms)
qed

lemma TempCalc_value:
  assumes "1 \<le> uint b0 + uint b1" "uint b0 + uint b1 \<le> 3"
  shows "TempCalc (b0 # b1 # rest) = py_return (PyFloat (thermistor_formula (uint b0 + uint b1)))"
proof -
  define V where "V = uint b0 + uint b1"
  define R where "R = real_of_int V / (3.3 - real_of_int V) * 23 * 1000 / 10000"
  have R1: "1 \<le> R"
    unfolding R_def V_def using assms by (rule resistance_ge_one)
  then have "0 \<le> ln R" by simp
  then have "0 < 1 / 298 + ln R / 3430"
    by (simp add: add_pos_nonneg)
  then have d: "1 / 298 + ln R / 3430 \<noteq> 0" by simp
  have Rpos: "\<not> R \<le> 0" using R1 by simp
  have th: "thermistor_formula V = 1 / (1 / 298 + ln R / 3430) - 273"
    unfolding thermistor_formula_def R_def
    by (simp only: mult.assoc times_divide_eq_right [symmetric]) simp
  show ?thesis
    unfolding V_def [symmetric] th
    using Rpos d unfolding R_def V_def
    by (simp only: TempCalc_steps consts_nz math_log_pos py_div_nz simp_thms)
qed

lemma TempCalc_cases:
  "TempCalc bs = py_raise IndexError \<or> TempCalc bs = py_raise ValueError \<or>
   (\<exists>r. TempCalc bs = py_return (PyFloat r))"
proof (cases "length bs < 2")
  case True
  then show ?thesis by (simp add: TempCalc_short)
next
  case False
  then obtain b0 b1 rest where bs: "bs = b0 # b1 # rest"
    by (cases bs; cases "tl bs") auto
  have "0 \<le> uint b0 + uint b1" by simp
  then consider "uint b0 + uint b1 = 0 \<or> 4 \<le> uint b0 + uint b1"
    | "1 \<le> uint b0 + uint b1 \<and> uint b0 + uint b1 \<le> 3" by linarith
  then show ?thesis
    by cases (auto simp: bs TempCalc_domain TempCalc_value)
qed

lemma BatteryVoltage_raises:
  "BatteryVoltage np bs = py_raise (if length bs < 2 then IndexError else TypeError)"
  by (simp add: BatteryVoltage_short BatteryVoltage_long)

lemma decodeTelemetry_outcome:
  "decodeTelemetry np p =
     (case TempCalc (py_slice p 11 13) of
        (Raise e, l) \<Rightarrow> (Raise e, l)
      | (Return v, l) \<Rightarrow> py_raise (if length (py_slice p 29 31) < 2 then IndexError else TypeError))"
  using TempCalc_cases [of "py_slice p 11 13"]
  unfolding decodeTelemetry_def
  apply (elim disjE exE)
  apply (simp_all add: store_def decodeTimeStamp_def decodeCommandReceivedCount_def decodeLastCommandReceived_def
    decodeTemperature_def decodeCDHPrimaryData_def decodeRejectedCIPPackets_def decodeLastDownlinkedHKSector_def
    LastdownlinkedScienceSector_def LastdownlinkedADCSSector_def BatteryVoltage_raises)
    apply (simp_all add: py_raise_def py_return_def)
  done

lemma parsePacket_not_found:
  "\<forall>k. \<not> marker_at 0x08 0x19 buf k \<Longrightarrow>
   parsePacket np buf =
     (Return (RInt (- 1)), [(Error, Text ''No start sync bytes found in minxss_parser, exiting.'')])"
  using find_pair_none [of "0x08" "0x19" buf]
  by (simp add: parsePacket_def parsePacket_frame_def findSyncStartIndex_def py_log_def
      py_return_def)

lemma parsePacket_frame_at:
  assumes "findSyncStartIndex buf = int k"
  shows "parsePacket_frame np buf = (drop k buf, decodeTelemetry np (drop k buf))"
proof -
  have "py_slice buf (int k) (int (length buf)) = drop k buf"
    by (simp add: py_slice_nonneg)
  with assms show ?thesis by (simp add: parsePacket_frame_def Let_def)
qed

lemma parsePacket_at:
  assumes "findSyncStartIndex buf = int k"
  shows "parsePacket np buf = decodeTelemetry np (drop k buf)"
  by (simp add: parsePacket_def parsePacket_frame_at [OF assms])

lemma parsePacket_frame_found:
  assumes "marker_at 0x08 0x19 buf k" "\<forall>j<k. \<not> marker_at 0x08 0x19 buf j"
  shows "parsePacket_frame np buf = (drop k buf, decodeTelemetry np (drop k buf))"
  using find_pair_first [OF assms]
  by (intro parsePacket_frame_at) (simp add: findSyncStartIndex_def)

lemma parsePacket_found:
  assumes "marker_at 0x08 0x19 buf k" "\<forall>j<k. \<not> marker_at 0x08 0x19 buf j"
  shows "parsePacket np buf = decodeTelemetry np (drop k buf)"
  using find_pair_first [OF assms] by (intro parsePacket_at) (simp add: findSyncStartIndex_def)

lemma decodeTelemetry_raises: "\<exists>e. decodeTelemetry np p = py_raise e"
  using TempCalc_cases [of "py_slice p 11 13"]
  by (auto simp: decodeTelemetry_outcome py_raise_def py_return_def)

lemma slice_11_13: "13 \<le> length p \<Longrightarrow> py_slice p 11 13 = [p ! 11, p ! 12]"
  by (simp add: py_slice_nonneg take2_drop)

lemma slice_11_13_short: "length p < 13 \<Longrightarrow> length (py_slice p 11 13) < 2"
  by (simp add: py_slice_nonneg)

lemma decodeTelemetry_exception:
  "decodeTelemetry np p = py_raise
     (if length p < 13 then IndexError
      else if uint (p ! 11) + uint (p ! 12) = 0 \<or> 4 \<le> uint (p ! 11) + uint (p ! 12) then ValueError
      else if length p < 31 then IndexError
      else TypeError)"
proof (cases "length p < 13")
  case True
  then have "TempCalc (py_slice p 11 13) = py_raise IndexError"
    using slice_11_13_short [of p] by (simp add: TempCalc_short)
  with True show ?thesis by (simp add: decodeTelemetry_outcome py_raise_def)
next
  case False
  then have s: "py_slice p 11 13 = [p ! 11, p ! 12]"
    by (simp add: slice_11_13)
  have l: "(length (py_slice p 29 31) < 2) = (length p < 31)"
    by (auto simp: py_slice_nonneg)
  show ?thesis
  proof (cases "uint (p ! 11) + uint (p ! 12) = 0 \<or> 4 \<le> uint (p ! 11) + uint (p ! 12)")
    case True
    then have "TempCalc [p ! 11, p ! 12] = py_raise ValueError"
      by (rule TempCalc_domain)
    with True False s show ?thesis by (simp add: decodeTelemetry_outcome py_raise_def)
  next
    case dom: False
    have "0 \<le> uint (p ! 11) + uint (p ! 12)" by simp
    with dom have "1 \<le> uint (p ! 11) + uint (p ! 12)" "uint (p ! 11) + uint (p ! 12) \<le> 3"
      by linarith+
    then have "TempCalc [p ! 11, p ! 12] = py_return (PyFloat (thermistor_formula (uint (p ! 11) + uint (p ! 12))))"
      by (rule TempCalc_value)
    with dom False s l show ?thesis
      by (simp add: decodeTelemetry_outcome py_raise_def py_return_def)
  qed
qed

section \<open>Properties of decodeBytes\<close>


lemma uint8_byte: "uint8 np (uint (b :: byte)) = py_return b"
proof -
  have "0 \<le> uint b \<and> uint b \<le> 255" using uint_lt2p [of b] by simp
  then show ?thesis by (simp add: uint8_def)
qed

lemma uint8_NumPy1: "uint8 NumPy1 n = py_return (word_of_int n)"
  by (simp add: uint8_def)



lemma shifted_byte_low_bits:
  "(word_of_int (push_bit 16 (uint (b :: byte))) :: 8 word) = 0"
  "(word_of_int (push_bit 8 (uint (b :: byte))) :: 8 word) = 0"
  by (rule bit_word_eqI, simp add: bit_simps)+





lemma four_bytes_bits:
  "or_uint8 (or_uint8 (or_uint8 (lshift_uint8 NumPy1 b3 24) 0) 0) b0 =
     SInt64 (push_bit 24 (ucast (b3 :: byte)) OR ucast (b0 :: byte))"
  by (simp add: lshift_uint8_def)

lemma four_bytes_low32:
  "ucast (push_bit 24 (ucast (b3 :: byte)) OR ucast (b0 :: byte) :: 64 word) =
     (push_bit 24 (ucast b3) OR ucast b0 :: 32 word)"
  by (rule bit_word_eqI) (auto simp add: bit_simps dest: bit_imp_le_length)






section \<open>The claims\<close>

text \<open>
  C10. \<^verbatim>\<open>findSyncStartIndex\<close> returns the index of the first byte of the leftmost
  occurrence of \<open>0x08 0x19\<close> when the buffer holds one, and the sentinel \<open>-1\<close> when it
  holds none; \<^verbatim>\<open>findSyncStopIndex\<close> does the same for \<open>0xA5 0xA5\<close>. Both are total
  functions into the integers: no input makes them raise.
\<close>

theorem findSync_leftmost_or_sentinel:
  "(marker_at 0x08 0x19 buf k \<and> (\<forall>j<k. \<not> marker_at 0x08 0x19 buf j)
      \<longrightarrow> findSyncStartIndex buf = int k) \<and>
   ((\<forall>j. \<not> marker_at 0x08 0x19 buf j) \<longrightarrow> findSyncStartIndex buf = - 1) \<and>
   (marker_at 0xa5 0xa5 buf k \<and> (\<forall>j<k. \<not> marker_at 0xa5 0xa5 buf j)
      \<longrightarrow> findSyncStopIndex buf = int k) \<and>
   ((\<forall>j. \<not> marker_at 0xa5 0xa5 buf j) \<longrightarrow> findSyncStopIndex buf = - 1)"
  unfolding findSyncStartIndex_def findSyncStopIndex_def Let_def
  using find_pair_first [of _ _ buf k] find_pair_none [of _ _ buf] by blast

theorem findSync_leftmost_or_sentinel_witness:
  "findSyncStartIndex (replicate 17 0 @ [0x08, 0x19, 0xa5, 0xa5]) = 17 \<and>
   findSyncStopIndex [0x08, 0x19, 0xa5, 0xa5, 0xc0] = 2 \<and>
   findSyncStartIndex [0xc0, 0x00, 0x9a] = - 1 \<and>
   findSyncStopIndex [0xc0, 0x00, 0x9a] = - 1"
proof -
  let ?b = "replicate 17 0 @ [0x08, 0x19, 0xa5, 0xa5] :: byte list"
  let ?c = "[0x08, 0x19, 0xa5, 0xa5, 0xc0] :: byte list"
  let ?n = "[0xc0, 0x00, 0x9a] :: byte list"
  have s: "marker_at 0x08 0x19 ?b 17 \<and> (\<forall>j<17. \<not> marker_at 0x08 0x19 ?b j)"
    by (simp add: marker_at_def nth_append)
  have t: "marker_at 0xa5 0xa5 ?c 2 \<and> (\<forall>j<2. \<not> marker_at 0xa5 0xa5 ?c j)"
    by (auto simp: marker_at_def nth_Cons')
  have n1: "\<forall>j. \<not> marker_at 0x08 0x19 ?n j"
    by (auto simp: marker_at_def nth_Cons')
  have n2: "\<forall>j. \<not> marker_at 0xa5 0xa5 ?n j"
    by (auto simp: marker_at_def nth_Cons')
  show ?thesis
    using findSync_leftmost_or_sentinel [of ?b 17] findSync_leftmost_or_sentinel [of ?c 2]
      findSync_leftmost_or_sentinel [of ?n 0] s t n1 n2
    by simp
qed

text \<open>
  C6. \<^verbatim>\<open>parsePacket\<close> gives the sentinel \<open>-1\<close> exactly when the start marker
  \<open>0x08 0x19\<close> occurs nowhere in the buffer, and then it writes one error-level log
  record and raises nothing. When the marker occurs, the leftmost occurrence being at
  index \<open>k\<close>, the variable \<^verbatim>\<open>inspirePacket\<close> is set to the buffer without its first \<open>k\<close>
  bytes and the fields are decoded from it. Exactly those \<open>k\<close> bytes are dropped: the
  reframed packet has the length of the buffer less \<open>k\<close>, its byte \<open>i\<close> is byte
  \<open>k + i\<close> of the buffer up to the last one, and a stop marker \<open>0xA5 0xA5\<close> at or after
  \<open>k\<close> lies inside it with every byte that follows the marker.
\<close>

theorem parsePacket_frame_not_found_iff:
  "((fst (parsePacket np buf) = Return (RInt (- 1))) = (\<forall>j. \<not> marker_at 0x08 0x19 buf j)) \<and>
   ((\<forall>j. \<not> marker_at 0x08 0x19 buf j) \<longrightarrow>
      parsePacket np buf =
        (Return (RInt (- 1)),
         [(Error, Text ''No start sync bytes found in minxss_parser, exiting.'')])) \<and>
   (marker_at 0x08 0x19 buf k \<and> (\<forall>j<k. \<not> marker_at 0x08 0x19 buf j) \<longrightarrow>
      parsePacket np buf = decodeTelemetry np (drop k buf) \<and>
      py_slice buf (findSyncStartIndex buf) (int (length buf)) = drop k buf \<and>
      fst (parsePacket_frame np buf) = drop k buf \<and>
      length (fst (parsePacket_frame np buf)) = length buf - k \<and>
      (\<forall>i<length buf - k. fst (parsePacket_frame np buf) ! i = buf ! (k + i)) \<and>
      (\<forall>j. k \<le> j \<and> marker_at 0xa5 0xa5 buf j \<longrightarrow>
         marker_at 0xa5 0xa5 (fst (parsePacket_frame np buf)) (j - k) \<and>
         drop (j - k) (fst (parsePacket_frame np buf)) = drop j buf))"
proof -
  have none: "parsePacket np buf =
        (Return (RInt (- 1)),
         [(Error, Text ''No start sync bytes found in minxss_parser, exiting.'')])"
    if "\<forall>j. \<not> marker_at 0x08 0x19 buf j"
    using that by (rule parsePacket_not_found)
  have some: "fst (parsePacket np buf) \<noteq> Return (RInt (- 1))" if "marker_at 0x08 0x19 buf j" for j
  proof -
    from that find_pair_cases [of buf "0x08" "0x19"]
    obtain i where "marker_at 0x08 0x19 buf i" "\<forall>j<i. \<not> marker_at 0x08 0x19 buf j"
      by blast
    then have "parsePacket np buf = decodeTelemetry np (drop i buf)"
      by (rule parsePacket_found)
    with decodeTelemetry_raises [of np "drop i buf"] show ?thesis
      by (auto simp: py_raise_def)
  qed
  have reframed:
    "parsePacket np buf = decodeTelemetry np (drop k buf) \<and>
     py_slice buf (findSyncStartIndex buf) (int (length buf)) = drop k buf \<and>
     fst (parsePacket_frame np buf) = drop k buf \<and>
     length (fst (parsePacket_frame np buf)) = length buf - k \<and>
     (\<forall>i<length buf - k. fst (parsePacket_frame np buf) ! i = buf ! (k + i)) \<and>
     (\<forall>j. k \<le> j \<and> marker_at 0xa5 0xa5 buf j \<longrightarrow>
        marker_at 0xa5 0xa5 (fst (parsePacket_frame np buf)) (j - k) \<and>
        drop (j - k) (fst (parsePacket_frame np buf)) = drop j buf)"
    if m: "marker_at 0x08 0x19 buf k" "\<forall>j<k. \<not> marker_at 0x08 0x19 buf j"
  proof -
    have f: "findSyncStartIndex buf = int k"
      using find_pair_first [OF m] by (simp add: findSyncStartIndex_def)
    have fr: "fst (parsePacket_frame np buf) = drop k buf"
      by (simp add: parsePacket_frame_found [OF m])
    have sl: "py_slice buf (findSyncStartIndex buf) (int (length buf)) = drop k buf"
      by (simp add: f py_slice_nonneg)
    have kl: "k \<le> length buf" using m(1) by (simp add: marker_at_def)
    have stop: "marker_at 0xa5 0xa5 (drop k buf) (j - k) \<and> drop (j - k) (drop k buf) = drop j buf"
      if "k \<le> j" "marker_at 0xa5 0xa5 buf j" for j
      using that kl by (auto simp: marker_at_def)
    show ?thesis
      unfolding fr using parsePacket_found [OF m, of np] sl kl stop by simp
  qed
  have iff: "(fst (parsePacket np buf) = Return (RInt (- 1))) =
      (\<forall>j. \<not> marker_at 0x08 0x19 buf j)"
    using none some by auto
  show ?thesis
  proof (intro conjI)
    show "(fst (parsePacket np buf) = Return (RInt (- 1))) =
        (\<forall>j. \<not> marker_at 0x08 0x19 buf j)"
      by (rule iff)
    show "(\<forall>j. \<not> marker_at 0x08 0x19 buf j) \<longrightarrow>
        parsePacket np buf =
          (Return (RInt (- 1)),
           [(Error, Text ''No start sync bytes found in minxss_parser, exiting.'')])"
      using none by (rule impI)
    show "marker_at 0x08 0x19 buf k \<and> (\<forall>j<k. \<not> marker_at 0x08 0x19 buf j) \<longrightarrow>
        parsePacket np buf = decodeTelemetry np (drop k buf) \<and>
        py_slice buf (findSyncStartIndex buf) (int (length buf)) = drop k buf \<and>
        fst (parsePacket_frame np buf) = drop k buf \<and>
        length (fst (parsePacket_frame np buf)) = length buf - k \<and>
        (\<forall>i<length buf - k. fst (parsePacket_frame np buf) ! i = buf ! (k + i)) \<and>
        (\<forall>j. k \<le> j \<and> marker_at 0xa5 0xa5 buf j \<longrightarrow>
           marker_at 0xa5 0xa5 (fst (parsePacket_frame np buf)) (j - k) \<and>
           drop (j - k) (fst (parsePacket_frame np buf)) = drop j buf)"
    proof
      assume h: "marker_at 0x08 0x19 buf k \<and> (\<forall>j<k. \<not> marker_at 0x08 0x19 buf j)"
      from h have a: "marker_at 0x08 0x19 buf k" ..
      from h have b: "\<forall>j<k. \<not> marker_at 0x08 0x19 buf j" ..
      from a b show "parsePacket np buf = decodeTelemetry np (drop k buf) \<and>
        py_slice buf (findSyncStartIndex buf) (int (length buf)) = drop k buf \<and>
        fst (parsePacket_frame np buf) = drop k buf \<and>
        length (fst (parsePacket_frame np buf)) = length buf - k \<and>
        (\<forall>i<length buf - k. fst (parsePacket_frame np buf) ! i = buf ! (k + i)) \<and>
        (\<forall>j. k \<le> j \<and> marker_at 0xa5 0xa5 buf j \<longrightarrow>
           marker_at 0xa5 0xa5 (fst (parsePacket_frame np buf)) (j - k) \<and>
           drop (j - k) (fst (parsePacket_frame np buf)) = drop j buf)"
        by (rule reframed)
    qed
  qed
qed

theorem parsePacket_frame_not_found_iff_witness:
  "fst (parsePacket NumPy1 [0xc0, 0x00, 0x9a]) = Return (RInt (- 1)) \<and>
   parsePacket NumPy1 [0xc0, 0x00, 0x9a] =
     (Return (RInt (- 1)),
      [(Error, Text ''No start sync bytes found in minxss_parser, exiting.'')]) \<and>
   fst (parsePacket NumPy1 [0xa5, 0xa5, 0x08, 0x19, 0xa5, 0xa5, 0xc0]) \<noteq> Return (RInt (- 1)) \<and>
   parsePacket NumPy1 [0xa5, 0xa5, 0x08, 0x19, 0xa5, 0xa5, 0xc0] =
     decodeTelemetry NumPy1 [0x08, 0x19, 0xa5, 0xa5, 0xc0] \<and>
   fst (parsePacket_frame NumPy1 [0xa5, 0xa5, 0x08, 0x19, 0xa5, 0xa5, 0xc0]) =
     [0x08, 0x19, 0xa5, 0xa5, 0xc0] \<and>
   marker_at 0xa5 0xa5 (fst (parsePacket_frame NumPy1 [0xa5, 0xa5, 0x08, 0x19, 0xa5, 0xa5, 0xc0])) 2"
proof -
  let ?n = "[0xc0, 0x00, 0x9a] :: byte list"
  let ?b = "[0xa5, 0xa5, 0x08, 0x19, 0xa5, 0xa5, 0xc0] :: byte list"
  have n: "\<forall>j. \<not> marker_at 0x08 0x19 ?n j"
    by (auto simp: marker_at_def nth_Cons')
  have m: "marker_at 0x08 0x19 ?b 2 \<and> (\<forall>j<2. \<not> marker_at 0x08 0x19 ?b j)"
    by (auto simp: marker_at_def nth_Cons')
  have d: "drop 2 ?b = [0x08, 0x19, 0xa5, 0xa5, 0xc0]"
    by simp
  have st: "(2::nat) \<le> 4 \<and> marker_at 0xa5 0xa5 ?b 4"
    by (simp add: marker_at_def)
  from m have e: "\<not> (\<forall>j. \<not> marker_at 0x08 0x19 ?b j)" by blast
  have "fst (parsePacket NumPy1 ?n) = Return (RInt (- 1)) \<and>
        parsePacket NumPy1 ?n =
          (Return (RInt (- 1)),
           [(Error, Text ''No start sync bytes found in minxss_parser, exiting.'')])"
    using parsePacket_frame_not_found_iff [of NumPy1 ?n 0] n by blast
  moreover have "fst (parsePacket NumPy1 ?b) \<noteq> Return (RInt (- 1)) \<and>
        parsePacket NumPy1 ?b = decodeTelemetry NumPy1 [0x08, 0x19, 0xa5, 0xa5, 0xc0] \<and>
        fst (parsePacket_frame NumPy1 ?b) = [0x08, 0x19, 0xa5, 0xa5, 0xc0]"
    using parsePacket_frame_not_found_iff [of NumPy1 ?b 2, unfolded d] m e by blast
  moreover have "marker_at 0xa5 0xa5 (fst (parsePacket_frame NumPy1 ?b)) (4 - 2)"
    using parsePacket_frame_not_found_iff [of NumPy1 ?b 2] m st by blast
  then have "marker_at 0xa5 0xa5 (fst (parsePacket_frame NumPy1 ?b)) 2"
    by simp
  ultimately show ?thesis by blast
qed

text \<open>
  C2. \<^verbatim>\<open>parsePacket\<close> never returns a telemetry dictionary. A buffer without the
  start marker gives the sentinel \<open>-1\<close>; a buffer with the start marker makes the call
  raise an exception. \<^verbatim>\<open>BatteryVoltage\<close> raises on every call: TypeError from
  \<^verbatim>\<open>int(temp_hexdata, scale)\<close> when its slice has two bytes, IndexError when the
  slice \<^verbatim>\<open>[29:31]\<close> of the reframed packet is shorter.
\<close>

theorem parsePacket_never_returns_dictionary:
  "(\<forall>d l. parsePacket np buf \<noteq> (Return (RDict d), l)) \<and>
   ((\<forall>j. \<not> marker_at 0x08 0x19 buf j) \<longrightarrow> fst (parsePacket np buf) = Return (RInt (- 1))) \<and>
   ((\<exists>j. marker_at 0x08 0x19 buf j) \<longrightarrow> (\<exists>e. fst (parsePacket np buf) = Raise e)) \<and>
   (2 \<le> length bs \<longrightarrow> BatteryVoltage np bs = py_raise TypeError) \<and>
   (length bs < 2 \<longrightarrow> BatteryVoltage np bs = py_raise IndexError) \<and>
   BatteryVoltage np (py_slice p 29 31) =
     py_raise (if length p < 31 then IndexError else TypeError)"
proof -
  have none: "fst (parsePacket np buf) = Return (RInt (- 1))"
    if "\<forall>j. \<not> marker_at 0x08 0x19 buf j"
    using parsePacket_not_found [OF that] by simp
  have some: "\<exists>e. fst (parsePacket np buf) = Raise e" if "\<exists>j. marker_at 0x08 0x19 buf j"
  proof -
    from that find_pair_cases [of buf "0x08" "0x19"]
    obtain i where "marker_at 0x08 0x19 buf i" "\<forall>j<i. \<not> marker_at 0x08 0x19 buf j"
      by blast
    then have "parsePacket np buf = decodeTelemetry np (drop i buf)"
      by (rule parsePacket_found)
    with decodeTelemetry_raises [of np "drop i buf"] show ?thesis
      by (auto simp: py_raise_def)
  qed
  have "fst (parsePacket np buf) \<noteq> Return (RDict d)" for d
    using none some by (cases "\<exists>j. marker_at 0x08 0x19 buf j") auto
  then have nodict: "\<forall>d l. parsePacket np buf \<noteq> (Return (RDict d), l)"
    by (metis fst_conv)
  have "(length (py_slice p 29 31) < 2) = (length p < 31)"
    by (auto simp: py_slice_nonneg)
  then have bv: "BatteryVoltage np (py_slice p 29 31) =
      py_raise (if length p < 31 then IndexError else TypeError)"
    by (simp add: BatteryVoltage_raises)
  from nodict none some bv show ?thesis
    by (simp add: BatteryVoltage_short BatteryVoltage_long)
qed

theorem parsePacket_never_returns_dictionary_witness:
  "fst (parsePacket NumPy1 [0xc0, 0x00, 0x9a]) = Return (RInt (- 1)) \<and>
   (\<exists>e. fst (parsePacket NumPy1 [0x08, 0x19, 0xc1]) = Raise e) \<and>
   BatteryVoltage NumPy1 [0x02, 0x0a] = py_raise TypeError \<and>
   BatteryVoltage NumPy1 [0x02] = py_raise IndexError"
proof -
  let ?n = "[0xc0, 0x00, 0x9a] :: byte list"
  let ?b = "[0x08, 0x19, 0xc1] :: byte list"
  have n: "\<forall>j. \<not> marker_at 0x08 0x19 ?n j"
    by (auto simp: marker_at_def nth_Cons')
  have "marker_at 0x08 0x19 ?b 0"
    by (simp add: marker_at_def)
  then have m: "\<exists>j. marker_at 0x08 0x19 ?b j" ..
  have l2: "2 \<le> length [0x02, 0x0a :: byte]" and l1: "length [0x02 :: byte] < 2"
    by simp_all
  have "fst (parsePacket NumPy1 ?n) = Return (RInt (- 1))"
    using parsePacket_never_returns_dictionary [of NumPy1 ?n] n by blast
  moreover have "\<exists>e. fst (parsePacket NumPy1 ?b) = Raise e"
    using parsePacket_never_returns_dictionary [of NumPy1 ?b] m by blast
  moreover have "BatteryVoltage NumPy1 [0x02, 0x0a] = py_raise TypeError"
    using parsePacket_never_returns_dictionary [of NumPy1 _ "[0x02, 0x0a]"] l2 by blast
  moreover have "BatteryVoltage NumPy1 [0x02] = py_raise IndexError"
    using parsePacket_never_returns_dictionary [of NumPy1 _ "[0x02]"] l1 by blast
  ultimately show ?thesis by blast
qed

text \<open>
  C1. On the example packet of the \<^verbatim>\<open>__main__\<close> block \<^verbatim>\<open>parsePacket\<close> finds the start
  marker at index 18 and then raises ValueError: bytes 11 and 12 of the reframed
  packet are \<open>0x02\<close> and \<open>0x0a\<close>, their sum 12 makes the resistance negative, and
  \<^verbatim>\<open>math.log\<close> in \<^verbatim>\<open>TempCalc\<close> fails. No dictionary is returned and no temperature is
  computed.
\<close>

theorem parsePacket_exampleData_raises:
  "findSyncStartIndex exampleData = 18 \<and>
   drop 18 exampleData ! 11 = 0x02 \<and> drop 18 exampleData ! 12 = 0x0a \<and>
   TempCalc [0x02, 0x0a] = py_raise ValueError \<and>
   parsePacket np exampleData = py_raise ValueError"
proof -
  have f: "findSyncStartIndex exampleData = int 18"
    by (simp add: exampleData_def findSyncStartIndex_def)
  then have "parsePacket np exampleData = decodeTelemetry np (drop 18 exampleData)"
    by (rule parsePacket_at)
  then have p: "parsePacket np exampleData = py_raise ValueError"
    by (simp add: decodeTelemetry_exception) (simp add: exampleData_def)
  have b: "drop 18 exampleData ! 11 = 0x02 \<and> drop 18 exampleData ! 12 = 0x0a"
    by (simp add: exampleData_def)
  have "TempCalc [0x02, 0x0a] = py_raise ValueError"
    by (rule TempCalc_domain) simp
  with f p b show ?thesis by simp
qed

text \<open>
  C5 (as amended). For two bytes whose sum \<open>Vraw\<close> is 0 or at least 4, the resistance
  \<open>R\<close> is not positive and \<^verbatim>\<open>TempCalc\<close> raises Python's ValueError from
  \<^verbatim>\<open>math.log\<close>; it returns no value, so no NaN and no infinity. These are exactly the
  sums with \<open>R \<le> 0\<close>. The divider \<open>3.3 - Vraw\<close> is never zero, \<open>Vraw\<close> being an
  integer. Nothing catches the exception: \<^verbatim>\<open>decodeTemperature\<close> and \<^verbatim>\<open>parsePacket\<close>
  raise it too when bytes 11 and 12 of the reframed packet have such a sum.
\<close>

theorem TempCalc_domain_raises_ValueError:
  "(uint b0 + uint b1 = 0 \<or> 4 \<le> uint b0 + uint b1 \<longrightarrow>
      TempCalc [b0, b1] = py_raise ValueError \<and>
      decodeTemperature [b0, b1] = py_raise ValueError) \<and>
   3.3 - real_of_int (uint b0 + uint b1) \<noteq> 0 \<and>
   ((real_of_int (uint b0 + uint b1) / (3.3 - real_of_int (uint b0 + uint b1))
       * 23 * 1000 / 10000 \<le> 0)
     = (uint b0 + uint b1 = 0 \<or> 4 \<le> uint b0 + uint b1)) \<and>
   (marker_at 0x08 0x19 buf k \<and> (\<forall>j<k. \<not> marker_at 0x08 0x19 buf j) \<and>
    k + 13 \<le> length buf \<and>
    (uint (buf ! (k + 11)) + uint (buf ! (k + 12)) = 0 \<or>
     4 \<le> uint (buf ! (k + 11)) + uint (buf ! (k + 12))) \<longrightarrow>
      parsePacket np buf = py_raise ValueError)"
proof -
  define V where "V = uint b0 + uint b1"
  have V0: "0 \<le> V" by (simp add: V_def)
  define R where "R = real_of_int V / (3.3 - real_of_int V) * 23 * 1000 / 10000"
  have iff: "(R \<le> 0) = (V = 0 \<or> 4 \<le> V)"
  proof (cases "V = 0 \<or> 4 \<le> V")
    case True
    then have "R \<le> 0" unfolding R_def by (rule resistance_nonpos)
    with True show ?thesis by blast
  next
    case False
    with V0 have "1 \<le> V" "V \<le> 3" by linarith+
    then have "1 \<le> R" unfolding R_def by (rule resistance_ge_one)
    then have "\<not> R \<le> 0" by linarith
    with False show ?thesis by blast
  qed
  have pkt: "parsePacket np buf = py_raise ValueError"
    if m: "marker_at 0x08 0x19 buf k" "\<forall>j<k. \<not> marker_at 0x08 0x19 buf j"
      and l: "k + 13 \<le> length buf"
      and d: "uint (buf ! (k + 11)) + uint (buf ! (k + 12)) = 0 \<or>
              4 \<le> uint (buf ! (k + 11)) + uint (buf ! (k + 12))"
  proof -
    have "parsePacket np buf = decodeTelemetry np (drop k buf)"
      using m by (rule parsePacket_found)
    moreover have "\<not> length (drop k buf) < 13" using l by simp
    moreover have "drop k buf ! 11 = buf ! (k + 11)" "drop k buf ! 12 = buf ! (k + 12)"
      using l by simp_all
    ultimately show ?thesis
      using d by (simp add: decodeTelemetry_exception)
  qed
  show ?thesis
    using iff [unfolded R_def] pkt denom_nz [of V] TempCalc_domain [of b0 b1 "[]"]
    unfolding V_def decodeTemperature_def by blast
qed

theorem TempCalc_domain_raises_ValueError_witness:
  "TempCalc [0x00, 0x00] = py_raise ValueError \<and>
   decodeTemperature [0x95, 0x96] = py_raise ValueError \<and>
   parsePacket NumPy1 [0xc0, 0x08, 0x19, 0, 0, 0, 0, 0, 0, 0, 0, 0, 0x02, 0x0a] = py_raise ValueError"
proof -
  let ?b = "[0xc0, 0x08, 0x19, 0, 0, 0, 0, 0, 0, 0, 0, 0, 0x02, 0x0a] :: byte list"
  have z: "uint (0x00 :: byte) + uint (0x00 :: byte) = 0 \<or>
           4 \<le> uint (0x00 :: byte) + uint (0x00 :: byte)"
    by simp
  have h: "uint (0x95 :: byte) + uint (0x96 :: byte) = 0 \<or>
           4 \<le> uint (0x95 :: byte) + uint (0x96 :: byte)"
    by simp
  have m: "marker_at 0x08 0x19 ?b 1 \<and> (\<forall>j<1. \<not> marker_at 0x08 0x19 ?b j)"
    by (simp add: marker_at_def)
  have l: "1 + 13 \<le> length ?b"
    by simp
  have d: "uint (?b ! (1 + 11)) + uint (?b ! (1 + 12)) = 0 \<or>
           4 \<le> uint (?b ! (1 + 11)) + uint (?b ! (1 + 12))"
    by simp
  have "TempCalc [0x00, 0x00] = py_raise ValueError"
    using TempCalc_domain_raises_ValueError [of "0x00" "0x00"] z by blast
  moreover have "decodeTemperature [0x95, 0x96] = py_raise ValueError"
    using TempCalc_domain_raises_ValueError [of "0x95" "0x96"] h by blast
  moreover have "parsePacket NumPy1 ?b = py_raise ValueError"
    using TempCalc_domain_raises_ValueError [of _ _ ?b 1 NumPy1] m l d by blast
  ultimately show ?thesis by blast
qed

text \<open>
  The claim fails as it is stated: on the bytes \<open>0, 0\<close> the outcome of \<^verbatim>\<open>TempCalc\<close> is
  a raised ValueError, not a returned error value, and the exception leaves
  \<^verbatim>\<open>parsePacket\<close> unhandled.
\<close>

theorem TempCalc_domain_error_counterexample:
  "fst (TempCalc [0x00, 0x00]) = Raise ValueError \<and>
   fst (parsePacket NumPy1 [0x08, 0x19, 0, 0, 0, 0, 0, 0, 0, 0, 0, 0x00, 0x00]) = Raise ValueError \<and>
   fst (parsePacket NumPy2 [0x08, 0x19, 0, 0, 0, 0, 0, 0, 0, 0, 0, 0x00, 0x00]) = Raise ValueError"
proof -
  let ?b = "[0x08, 0x19, 0, 0, 0, 0, 0, 0, 0, 0, 0, 0x00, 0x00] :: byte list"
  have "TempCalc [0x00, 0x00] = py_raise ValueError"
    by (rule TempCalc_domain) simp
  moreover have "findSyncStartIndex ?b = int 0"
    by (simp add: findSyncStartIndex_def)
  then have "parsePacket np ?b = decodeTelemetry np (drop 0 ?b)" for np
    by (rule parsePacket_at)
  then have "parsePacket np ?b = py_raise ValueError" for np
    by (simp add: decodeTelemetry_exception)
  ultimately show ?thesis by (simp add: py_raise_def)
qed

text \<open>
  C4 (as amended). With floats read as real numbers: for two bytes whose sum is 1, 2
  or 3, \<^verbatim>\<open>TempCalc\<close> returns the value of the specification's formula at that sum;
  for every other pair of bytes (sum 0, or 4 and more) the formula has no value,
  the argument of the logarithm not being positive, and \<^verbatim>\<open>TempCalc\<close> raises
  ValueError.
\<close>

theorem TempCalc_formula_where_defined:
  "(1 \<le> uint b0 + uint b1 \<and> uint b0 + uint b1 \<le> 3 \<longrightarrow>
      TempCalc [b0, b1] = py_return (PyFloat (thermistor_formula (uint b0 + uint b1)))) \<and>
   (uint b0 + uint b1 = 0 \<or> 4 \<le> uint b0 + uint b1 \<longrightarrow>
      TempCalc [b0, b1] = py_raise ValueError)"
  using TempCalc_value [of b0 b1 "[]"] TempCalc_domain [of b0 b1 "[]"] by blast

theorem TempCalc_formula_where_defined_witness:
  "TempCalc [0x00, 0x01] = py_return (PyFloat 25) \<and>
   TempCalc [0x02, 0x0a] = py_raise ValueError"
proof -
  have a: "1 \<le> uint (0x00 :: byte) + uint (0x01 :: byte) \<and>
           uint (0x00 :: byte) + uint (0x01 :: byte) \<le> 3"
    by simp
  have b: "uint (0x02 :: byte) + uint (0x0a :: byte) = 0 \<or>
           4 \<le> uint (0x02 :: byte) + uint (0x0a :: byte)"
    by simp
  have v: "thermistor_formula (uint (0x00 :: byte) + uint (0x01 :: byte)) = 25"
    by (simp add: thermistor_formula_def)
  have "TempCalc [0x00, 0x01] = py_return (PyFloat 25)"
    using TempCalc_formula_where_defined [of "0x00" "0x01"] a v by simp
  moreover have "TempCalc [0x02, 0x0a] = py_raise ValueError"
    using TempCalc_formula_where_defined [of "0x02" "0x0a"] b by blast
  ultimately show ?thesis by blast
qed

text \<open>
  The claim fails as it is stated: on the bytes \<open>149, 150\<close> \<^verbatim>\<open>TempCalc\<close> raises
  ValueError and so does not return the value of the formula.
\<close>

theorem TempCalc_149_150_counterexample:
  "fst (TempCalc [149, 150]) = Raise ValueError \<and>
   TempCalc [149, 150] \<noteq> py_return (PyFloat (thermistor_formula (149 + 150)))"
proof -
  have "TempCalc [149, 150] = py_raise ValueError"
    by (rule TempCalc_domain) simp
  then show ?thesis by (simp add: py_raise_def py_return_def)
qed




text \<open>
  C3. On four bytes \<^verbatim>\<open>decodeBytes\<close> under the numpy 1.x rules returns
  \<open>b[0] + (b[3] << 24)\<close>, unsigned or signed: bytes 1 and 2 do not enter the result,
  their shifts standing inside the \<^verbatim>\<open>uint8(...)\<close> casts. On \<open>0x78 0x56 0x34 0x12\<close> it
  returns \<open>0x12000078\<close>, where the little-endian combination is \<open>0x12345678\<close>; under
  the numpy 2 rules the same call raises OverflowError.
\<close>

theorem decodeBytes_four_bytes_drops_middle:
  "decodeBytes NumPy1 [b0, b1, b2, b3] True =
     py_return (NpUInt32 (push_bit 24 (ucast b3) OR ucast b0)) \<and>
   decodeBytes NumPy1 [b0, b1, b2, b3] False =
     py_return (NpInt32 (push_bit 24 (ucast b3) OR ucast b0)) \<and>
   decodeBytes NumPy1 [0x78, 0x56, 0x34, 0x12] True = py_return (NpUInt32 0x12000078) \<and>
   decodeBytes NumPy2 [0x78, 0x56, 0x34, 0x12] True = py_raise OverflowError \<and>
   decodeBytes NumPy2 [0x78, 0x56, 0x34, 0x12] False = py_raise OverflowError \<and>
   uint (0x78 :: byte) + push_bit 8 (uint (0x56 :: byte)) + push_bit 16 (uint (0x34 :: byte))
     + push_bit 24 (uint (0x12 :: byte)) = 0x12345678"
proof -
  have u: "decodeBytes NumPy1 [b0, b1, b2, b3] True =
      py_return (NpUInt32 (push_bit 24 (ucast b3) OR ucast b0))" for b0 b1 b2 b3
    by (simp add: decodeBytes_def item_def uint8_byte uint8_NumPy1 shifted_byte_low_bits
        four_bytes_bits four_bytes_low32)
  have s: "decodeBytes NumPy1 [b0, b1, b2, b3] False =
      py_return (NpInt32 (push_bit 24 (ucast b3) OR ucast b0))"
    by (simp add: decodeBytes_def item_def uint8_byte uint8_NumPy1 shifted_byte_low_bits
        four_bytes_bits four_bytes_low32)
  have e: "decodeBytes NumPy1 [0x78, 0x56, 0x34, 0x12] True = py_return (NpUInt32 0x12000078)"
    by (simp add: u)
  have o: "decodeBytes NumPy2 [0x78, 0x56, 0x34, 0x12] flag = py_raise OverflowError" for flag
    by (simp add: decodeBytes_def item_def uint8_def)
  from u s e o show ?thesis by simp
qed

text \<open>
  C8. On one byte \<^verbatim>\<open>decodeBytes\<close> returns the bytearray it was given, whatever the
  flag and the numpy rules: a one-element bytearray, not the integer value of the
  byte.
\<close>

theorem decodeBytes_one_byte_returns_bytearray:
  "decodeBytes np [b] returnUnsignedInt = py_return (PyBytes [b]) \<and>
   decodeBytes np [b] returnUnsignedInt \<noteq> py_return (PyInt (uint b)) \<and>
   decodeBytes np [0x2a] False = py_return (PyBytes [0x2a])"
  by (simp add: decodeBytes_def py_return_def)

text \<open>
  C9 (as amended). On an input whose length is not 1, 2 or 4 (the empty one among
  them) \<^verbatim>\<open>decodeBytes\<close> writes one debug-level log record, \<open>More bytes than expected\<close>,
  and returns \<^verbatim>\<open>None\<close>; it raises nothing and returns no integer.
\<close>

theorem decodeBytes_other_width_returns_None:
  "length bytearrayTemp \<noteq> 1 \<and> length bytearrayTemp \<noteq> 2 \<and> length bytearrayTemp \<noteq> 4 \<longrightarrow>
     decodeBytes np bytearrayTemp returnUnsignedInt =
       (Return PyNone, [(Debug, Text ''More bytes than expected'')])"
  by (simp add: decodeBytes_def py_log_def py_return_def)

theorem decodeBytes_other_width_returns_None_witness:
  "decodeBytes NumPy1 [0x01, 0x02, 0x03] True =
     (Return PyNone, [(Debug, Text ''More bytes than expected'')]) \<and>
   decodeBytes NumPy2 [] False =
     (Return PyNone, [(Debug, Text ''More bytes than expected'')])"
proof -
  have a: "length [0x01, 0x02, 0x03 :: byte] \<noteq> 1 \<and> length [0x01, 0x02, 0x03 :: byte] \<noteq> 2 \<and>
           length [0x01, 0x02, 0x03 :: byte] \<noteq> 4"
    by simp
  have b: "length ([] :: byte list) \<noteq> 1 \<and> length ([] :: byte list) \<noteq> 2 \<and>
           length ([] :: byte list) \<noteq> 4"
    by simp
  show ?thesis
    using decodeBytes_other_width_returns_None [of "[0x01, 0x02, 0x03]" NumPy1 True, rule_format, OF a]
      decodeBytes_other_width_returns_None [of "[]" NumPy2 False, rule_format, OF b]
    by blast
qed

text \<open>
  The claim fails as it is stated: on three bytes the call returns normally, with
  the value \<^verbatim>\<open>None\<close>, and the only report is a debug-level log record.
\<close>

theorem decodeBytes_three_bytes_counterexample:
  "fst (decodeBytes NumPy1 [0x01, 0x02, 0x03] False) = Return PyNone \<and>
   snd (decodeBytes NumPy1 [0x01, 0x02, 0x03] False) =
     [(Debug, Text ''More bytes than expected'')] \<and>
   fst (decodeBytes NumPy2 [0x01, 0x02, 0x03] False) = Return PyNone"
  by (simp add: decodeBytes_def py_log_def py_return_def)

end
